theory Spec2Isabelle
  imports Complex_Main "HOL-Library.Sublist" "HOL-Library.Multiset"
begin

section \<open>Numbers\<close>

text \<open>
  A JavaScript number is a finite value, an infinity or NaN. Finite values are idealised
  as reals (rounding of IEEE doubles and signed zeros are not modelled). The volumes of a
  liquidation snapshot are finite in the model of the snapshot generators; the
  liquidation ratio is also defined on all numbers, since \<open>parseFloat\<close> of a
  provider's field can be NaN or infinite.
\<close>

datatype jsnum = Finite real | PosInfinity | NegInfinity | NaN

text \<open>\<open>Math.max\<close> of two numbers: NaN when either is NaN.\<close>

fun js_max :: "jsnum \<Rightarrow> jsnum \<Rightarrow> jsnum" where
  "js_max NaN y = NaN"
| "js_max (Finite a) NaN = NaN"
| "js_max PosInfinity NaN = NaN"
| "js_max NegInfinity NaN = NaN"
| "js_max PosInfinity (Finite b) = PosInfinity"
| "js_max PosInfinity PosInfinity = PosInfinity"
| "js_max PosInfinity NegInfinity = PosInfinity"
| "js_max (Finite a) PosInfinity = PosInfinity"
| "js_max NegInfinity PosInfinity = PosInfinity"
| "js_max NegInfinity (Finite b) = Finite b"
| "js_max NegInfinity NegInfinity = NegInfinity"
| "js_max (Finite a) NegInfinity = Finite a"
| "js_max (Finite a) (Finite b) = Finite (max a b)"

text \<open>The operator \<open>/\<close>.\<close>

fun js_div :: "jsnum \<Rightarrow> jsnum \<Rightarrow> jsnum" where
  "js_div NaN y = NaN"
| "js_div (Finite a) NaN = NaN"
| "js_div PosInfinity NaN = NaN"
| "js_div NegInfinity NaN = NaN"
| "js_div (Finite a) (Finite b) =
     (if b \<noteq> 0 then Finite (a / b)
      else if a > 0 then PosInfinity
      else if a < 0 then NegInfinity
      else NaN)"
| "js_div (Finite a) PosInfinity = Finite 0"
| "js_div (Finite a) NegInfinity = Finite 0"
| "js_div PosInfinity (Finite b) = (if b < 0 then NegInfinity else PosInfinity)"
| "js_div NegInfinity (Finite b) = (if b < 0 then PosInfinity else NegInfinity)"
| "js_div PosInfinity PosInfinity = NaN"
| "js_div PosInfinity NegInfinity = NaN"
| "js_div NegInfinity PosInfinity = NaN"
| "js_div NegInfinity NegInfinity = NaN"

text \<open>\<open>q < y\<close> and \<open>q > y\<close> for a quotient and a finite literal; false on NaN.\<close>

fun js_lt :: "jsnum \<Rightarrow> real \<Rightarrow> bool" where
  "js_lt (Finite x) y = (x < y)"
| "js_lt NegInfinity y = True"
| "js_lt PosInfinity y = False"
| "js_lt NaN y = False"

fun js_gt :: "jsnum \<Rightarrow> real \<Rightarrow> bool" where
  "js_gt (Finite x) y = (x > y)"
| "js_gt PosInfinity y = True"
| "js_gt NegInfinity y = False"
| "js_gt NaN y = False"

fun isFinite :: "jsnum \<Rightarrow> bool" where
  "isFinite (Finite x) = True"
| "isFinite PosInfinity = False"
| "isFinite NegInfinity = False"
| "isFinite NaN = False"

section \<open>JavaScript values\<close>

text \<open>The exceptions that the modelled code can throw.\<close>

datatype error = TypeError | SyntaxError | ApiError | NoResponse

text \<open>
  \<open>JSON.parse\<close> returns a value of any shape, and the cast \<open>as AIAnalysis\<close> checks
  nothing, so the parsed answer is a JavaScript value: null, a boolean, a number, a
  string, an array (its elements, and the named properties that were set on it; none
  after parsing) or an object (its properties, in insertion order).
\<close>

datatype jsval =
    JNull
  | JBool bool
  | JNum real
  | JStr string
  | JArr "jsval list" "(string \<times> jsval) list"
  | JObj "(string \<times> jsval) list"

text \<open>
  Reading \<open>v.k\<close> for a property name that is no index and no built-in: a TypeError
  on null, \<open>undefined\<close> (here \<open>None\<close>) on a primitive or when the property is absent.
\<close>

fun getProp :: "jsval \<Rightarrow> string \<Rightarrow> error + jsval option" where
  "getProp JNull k = Inl TypeError"
| "getProp (JObj ps) k = Inr (map_of ps k)"
| "getProp (JArr xs ps) k = Inr (map_of ps k)"
| "getProp (JBool b) k = Inr None"
| "getProp (JNum n) k = Inr None"
| "getProp (JStr t) k = Inr None"

fun setField :: "string \<Rightarrow> jsval \<Rightarrow> (string \<times> jsval) list \<Rightarrow> (string \<times> jsval) list" where
  "setField k v [] = [(k, v)]"
| "setField k v ((k', v') # ps) = (if k' = k then (k, v) # ps else (k', v') # setField k v ps)"

text \<open>
  The assignment \<open>target.k = v\<close> in strict mode (module code): a TypeError when the
  target is undefined, null or a primitive; otherwise the target with the property set.
\<close>

fun setProp :: "jsval option \<Rightarrow> string \<Rightarrow> jsval \<Rightarrow> error + jsval" where
  "setProp None k v = Inl TypeError"
| "setProp (Some JNull) k v = Inl TypeError"
| "setProp (Some (JBool b)) k v = Inl TypeError"
| "setProp (Some (JNum n)) k v = Inl TypeError"
| "setProp (Some (JStr t)) k v = Inl TypeError"
| "setProp (Some (JArr xs ps)) k v = Inr (JArr xs (setField k v ps))"
| "setProp (Some (JObj ps)) k v = Inr (JObj (setField k v ps))"

text \<open>
  The nested object is changed in place; \<open>withProp\<close> is the enclosing value seen
  afterwards, holding the changed object under the same property.
\<close>

fun withProp :: "jsval \<Rightarrow> string \<Rightarrow> jsval \<Rightarrow> jsval" where
  "withProp (JObj ps) k v = JObj (setField k v ps)"
| "withProp (JArr xs ps) k v = JArr xs (setField k v ps)"
| "withProp JNull k v = JNull"
| "withProp (JBool b) k v = JBool b"
| "withProp (JNum n) k v = JNum n"
| "withProp (JStr t) k v = JStr t"

text \<open>Reading a path of properties of a returned value, for stating what it holds.\<close>

fun getPath :: "jsval \<Rightarrow> string list \<Rightarrow> jsval option" where
  "getPath v [] = Some v"
| "getPath v (k # ks) =
     (case getProp v k of
        Inr (Some w) \<Rightarrow> getPath w ks
      | Inr None \<Rightarrow> None
      | Inl e \<Rightarrow> None)"


section \<open>Data model (src/lib/types.ts)\<close>

datatype TrendDirection = TREND_LONG | TREND_SHORT | TREND_NEUTRAL

datatype BollingerBreakout = BB_UP | BB_DOWN | BB_NONE

datatype EmaCrossover = EMA_BULLISH | EMA_BEARISH | EMA_NONE

datatype LiquidationSpike = SPIKE_LONG | SPIKE_SHORT | SPIKE_NONE

datatype NewsSentiment = BULLISH | BEARISH | NEUTRAL

record BinanceData =
  coin :: string
  currentPrice :: real
  volume :: real
  openInterest :: real
  fundingRate :: real
  longShortRatio :: real
  deltaVolume :: real
  trend5min :: TrendDirection
  trend15min :: TrendDirection
  bollingerBandBreakout :: BollingerBreakout
  emaCrossover :: EmaCrossover

record CoinglassData =
  cg_coin :: string
  totalLiquidations1h :: real
  longLiquidations1h :: real
  shortLiquidations1h :: real
  totalLiquidations4h :: real
  longLiquidations4h :: real
  shortLiquidations4h :: real
  totalLiquidations24h :: real
  longLiquidations24h :: real
  shortLiquidations24h :: real
  liquidationSpike :: LiquidationSpike

text \<open>
  The union of string literals of \<open>SignalOutput["signal"]\<close>. Each literal starts with
  an emoji and a space; \<open>signal_text\<close> is the rest of the literal, which is all that the
  program's \<open>includes\<close> tests (on the words LONG, SHORT, REVERSAL, GOING, RISKY) can see.
\<close>

datatype Signal =
    REVERSAL_STARTED_LONG
  | REVERSAL_STARTED_SHORT
  | LONG_GOING
  | SHORT_GOING
  | LONG_RISKY_TODAY
  | SHORT_RISKY_TODAY
  | NO_SIGNAL

fun signal_text :: "Signal \<Rightarrow> string" where
  "signal_text REVERSAL_STARTED_LONG = ''REVERSAL STARTED - LONG''"
| "signal_text REVERSAL_STARTED_SHORT = ''REVERSAL STARTED - SHORT''"
| "signal_text LONG_GOING = ''LONG GOING''"
| "signal_text SHORT_GOING = ''SHORT GOING''"
| "signal_text LONG_RISKY_TODAY = ''LONG RISKY TODAY''"
| "signal_text SHORT_RISKY_TODAY = ''SHORT RISKY TODAY''"
| "signal_text NO_SIGNAL = ''NO SIGNAL (STAY AWAY)''"

definition signal_enumeration :: "Signal list" where
  "signal_enumeration =
     [REVERSAL_STARTED_LONG, REVERSAL_STARTED_SHORT, LONG_GOING, SHORT_GOING,
      LONG_RISKY_TODAY, SHORT_RISKY_TODAY, NO_SIGNAL]"

text \<open>\<open>String.prototype.includes\<close>: the needle occurs as a contiguous substring.\<close>

fun str_includes :: "string \<Rightarrow> string \<Rightarrow> bool" where
  "str_includes [] needle = (needle = [])"
| "str_includes (c # cs) needle = (prefix needle (c # cs) \<or> str_includes cs needle)"

text \<open>
  \<open>aiAnalysis\<close> is declared as AIAnalysis, but what the orchestrator stores there is
  the validator's result, a parsed JSON value that nothing has checked: it is a
  JavaScript value.
\<close>

record SignalOutput =
  sig_coin :: string
  sig_currentPrice :: real
  signal :: Signal
  confidence :: int
  trendSummary :: "string list"
  suggestedAction :: string
  aiAnalysis :: "jsval option"

section \<open>Signal scorer: generateSignal\<close>

text \<open>
  The expression \<open>long / Math.max(short, 1)\<close>, which generateSignal,
  getRealCoinglassData and generateEnhancedMockCoinglassData each write out: on any two
  numbers, and on the finite volumes of a snapshot.
\<close>

definition liqRatioOf :: "jsnum \<Rightarrow> jsnum \<Rightarrow> jsnum" where
  "liqRatioOf longLiq1h shortLiq1h = js_div longLiq1h (js_max shortLiq1h (Finite 1))"

definition liqRatio :: "real \<Rightarrow> real \<Rightarrow> jsnum" where
  "liqRatio longLiq1h shortLiq1h = liqRatioOf (Finite longLiq1h) (Finite shortLiq1h)"

definition liquidationRatio :: "CoinglassData \<Rightarrow> jsnum" where
  "liquidationRatio coinglassData =
     liqRatio (longLiquidations1h coinglassData) (shortLiquidations1h coinglassData)"

definition bullishSignals :: "BinanceData \<Rightarrow> CoinglassData \<Rightarrow> bool list" where
  "bullishSignals binanceData coinglassData =
     [trend5min binanceData = TREND_LONG,
      trend15min binanceData = TREND_LONG,
      bollingerBandBreakout binanceData = BB_UP,
      emaCrossover binanceData = EMA_BULLISH,
      fundingRate binanceData < - 0.01,
      longShortRatio binanceData < 0.8,
      liquidationSpike coinglassData = SPIKE_SHORT,
      js_lt (liquidationRatio coinglassData) 0.5]"

definition bearishSignals :: "BinanceData \<Rightarrow> CoinglassData \<Rightarrow> bool list" where
  "bearishSignals binanceData coinglassData =
     [trend5min binanceData = TREND_SHORT,
      trend15min binanceData = TREND_SHORT,
      bollingerBandBreakout binanceData = BB_DOWN,
      emaCrossover binanceData = EMA_BEARISH,
      fundingRate binanceData > 0.01,
      longShortRatio binanceData > 1.2,
      liquidationSpike coinglassData = SPIKE_LONG,
      js_gt (liquidationRatio coinglassData) 2]"

text \<open>\<open>xs.filter(Boolean).length\<close>\<close>

definition countTrue :: "bool list \<Rightarrow> nat" where
  "countTrue xs = length (filter (\<lambda>b. b) xs)"

definition bullishCount :: "BinanceData \<Rightarrow> CoinglassData \<Rightarrow> nat" where
  "bullishCount binanceData coinglassData = countTrue (bullishSignals binanceData coinglassData)"

definition bearishCount :: "BinanceData \<Rightarrow> CoinglassData \<Rightarrow> nat" where
  "bearishCount binanceData coinglassData = countTrue (bearishSignals binanceData coinglassData)"

text \<open>
  The trend summary is built by a sequence of guarded \<open>push\<close> statements; \<open>pushAll\<close>
  runs such a sequence on the list built so far.
\<close>

fun pushAll :: "string list \<Rightarrow> (bool \<times> string) list \<Rightarrow> string list" where
  "pushAll acc [] = acc"
| "pushAll acc ((cond, msg) # rest) = pushAll (if cond then acc @ [msg] else acc) rest"

definition bullishPushes :: "BinanceData \<Rightarrow> CoinglassData \<Rightarrow> (bool \<times> string) list" where
  "bullishPushes binanceData coinglassData =
     [(trend5min binanceData = TREND_LONG, ''5min uptrend active''),
      (trend15min binanceData = TREND_LONG, ''15min uptrend active''),
      (bollingerBandBreakout binanceData = BB_UP, ''Bollinger upper band breakout''),
      (emaCrossover binanceData = EMA_BULLISH, ''EMA bullish crossover''),
      (liquidationSpike coinglassData = SPIKE_SHORT, ''Short liquidation spike detected''),
      (fundingRate binanceData < - 0.01, ''Negative funding rate (shorts paying)'')]"

definition bearishPushes :: "BinanceData \<Rightarrow> CoinglassData \<Rightarrow> (bool \<times> string) list" where
  "bearishPushes binanceData coinglassData =
     [(trend5min binanceData = TREND_SHORT, ''5min downtrend active''),
      (trend15min binanceData = TREND_SHORT, ''15min downtrend active''),
      (bollingerBandBreakout binanceData = BB_DOWN, ''Bollinger lower band breakout''),
      (emaCrossover binanceData = EMA_BEARISH, ''EMA bearish crossover''),
      (liquidationSpike coinglassData = SPIKE_LONG, ''Long liquidation spike detected''),
      (fundingRate binanceData > 0.01, ''Positive funding rate (longs paying)'')]"

definition buildTrendSummary :: "BinanceData \<Rightarrow> CoinglassData \<Rightarrow> string list" where
  "buildTrendSummary binanceData coinglassData =
     pushAll (pushAll [] (bullishPushes binanceData coinglassData))
       (bearishPushes binanceData coinglassData)"

text \<open>The block "Determine signal and confidence": first matching branch wins.\<close>

definition determineSignal :: "nat \<Rightarrow> nat \<Rightarrow> Signal \<times> int" where
  "determineSignal bullCount bearCount =
     (if bullCount \<ge> 5 then (REVERSAL_STARTED_LONG, min 95 (60 + int bullCount * 5))
      else if bullCount \<ge> 3 then (LONG_GOING, min 85 (50 + int bullCount * 7))
      else if bearCount \<ge> 5 then (REVERSAL_STARTED_SHORT, min 95 (60 + int bearCount * 5))
      else if bearCount \<ge> 3 then (SHORT_GOING, min 85 (50 + int bearCount * 7))
      else if bullCount = 2 then (SHORT_RISKY_TODAY, 40)
      else if bearCount = 2 then (LONG_RISKY_TODAY, 40)
      else (NO_SIGNAL, 0))"

text \<open>The four sentiment statements, run in the source's order, then the clamp.\<close>

definition adjustConfidence :: "NewsSentiment \<Rightarrow> Signal \<Rightarrow> int \<Rightarrow> int" where
  "adjustConfidence newsSentiment sig confidence0 =
     (let c1 = (if newsSentiment = BULLISH \<and> str_includes (signal_text sig) ''LONG''
                then confidence0 + 10 else confidence0);
          c2 = (if newsSentiment = BEARISH \<and> str_includes (signal_text sig) ''SHORT''
                then c1 + 10 else c1);
          c3 = (if newsSentiment = BULLISH \<and> str_includes (signal_text sig) ''SHORT''
                then c2 - 10 else c2);
          c4 = (if newsSentiment = BEARISH \<and> str_includes (signal_text sig) ''LONG''
                then c3 - 10 else c3)
      in max 0 (min 100 c4))"

definition suggestAction :: "Signal \<Rightarrow> int \<Rightarrow> string" where
  "suggestAction sig conf =
     (if str_includes (signal_text sig) ''REVERSAL'' \<and> conf > 70 then
        ''High confidence '' @ (if str_includes (signal_text sig) ''LONG'' then ''LONG'' else ''SHORT'')
          @ '' setup. Consider entry with tight stop loss.''
      else if str_includes (signal_text sig) ''GOING'' \<and> conf > 60 then
        ''Trend continuation '' @ (if str_includes (signal_text sig) ''LONG'' then ''LONG'' else ''SHORT'')
          @ ''. Follow trend with proper risk management.''
      else if str_includes (signal_text sig) ''RISKY'' then
        (if str_includes (signal_text sig) ''LONG'' then ''Long'' else ''Short'')
          @ '' positions risky today. Consider opposite direction or wait.''
      else ''No clear direction. Wait for better setup.'')"

definition generateSignal :: "BinanceData \<Rightarrow> CoinglassData \<Rightarrow> NewsSentiment \<Rightarrow> SignalOutput" where
  "generateSignal binanceData coinglassData newsSentiment =
     (let bullCount = bullishCount binanceData coinglassData;
          bearCount = bearishCount binanceData coinglassData;
          summary = buildTrendSummary binanceData coinglassData;
          (sig, confidence0) = determineSignal bullCount bearCount;
          conf = adjustConfidence newsSentiment sig confidence0
      in \<lparr> sig_coin = coin binanceData,
           sig_currentPrice = currentPrice binanceData,
           signal = sig,
           confidence = conf,
           trendSummary = summary,
           suggestedAction = suggestAction sig conf,
           aiAnalysis = None \<rparr>)"

text \<open>Concrete inputs used to evaluate the scorer.\<close>

definition neutralMarket :: BinanceData where
  "neutralMarket =
     \<lparr> coin = ''BTCUSDT'', currentPrice = 113500, volume = 1000000, openInterest = 100000000,
       fundingRate = 0, longShortRatio = 1, deltaVolume = 0,
       trend5min = TREND_NEUTRAL, trend15min = TREND_NEUTRAL,
       bollingerBandBreakout = BB_NONE, emaCrossover = EMA_NONE \<rparr>"

definition sixBullMarket :: BinanceData where
  "sixBullMarket =
     neutralMarket \<lparr> fundingRate := - 0.02, longShortRatio := 0.7,
       trend5min := TREND_LONG, trend15min := TREND_LONG,
       bollingerBandBreakout := BB_UP, emaCrossover := EMA_BULLISH \<rparr>"

definition trendMarket :: "TrendDirection \<Rightarrow> BollingerBreakout \<Rightarrow> EmaCrossover \<Rightarrow> real \<Rightarrow> BinanceData" where
  "trendMarket trend breakout crossover funding =
     neutralMarket \<lparr> fundingRate := funding, trend5min := trend, trend15min := trend,
       bollingerBandBreakout := breakout, emaCrossover := crossover \<rparr>"

definition balancedLiquidations :: CoinglassData where
  "balancedLiquidations =
     \<lparr> cg_coin = ''BTCUSDT'',
       totalLiquidations1h = 200000, longLiquidations1h = 100000, shortLiquidations1h = 100000,
       totalLiquidations4h = 800000, longLiquidations4h = 400000, shortLiquidations4h = 400000,
       totalLiquidations24h = 4800000, longLiquidations24h = 2400000,
       shortLiquidations24h = 2400000,
       liquidationSpike = SPIKE_NONE \<rparr>"

text \<open>
  The facts that the summary can hold, in push order, and for each the index of the
  criterion it reports in the 8-entry vector of its side.
\<close>

definition bullishFacts :: "string list" where
  "bullishFacts =
     [''5min uptrend active'', ''15min uptrend active'', ''Bollinger upper band breakout'',
      ''EMA bullish crossover'', ''Short liquidation spike detected'',
      ''Negative funding rate (shorts paying)'']"

definition bearishFacts :: "string list" where
  "bearishFacts =
     [''5min downtrend active'', ''15min downtrend active'', ''Bollinger lower band breakout'',
      ''EMA bearish crossover'', ''Long liquidation spike detected'',
      ''Positive funding rate (longs paying)'']"

definition summarisedCriteria :: "nat list" where
  "summarisedCriteria = [0, 1, 2, 3, 6, 4]"

definition factsOf :: "bool list \<Rightarrow> string list \<Rightarrow> string list" where
  "factsOf criteria facts =
     map snd (filter fst (zip (map (\<lambda>i. criteria ! i) summarisedCriteria) facts))"

definition ratioOnlyMarket :: BinanceData where
  "ratioOnlyMarket = neutralMarket \<lparr> longShortRatio := 0.7 \<rparr>"

section \<open>Liquidation snapshots\<close>

text \<open>
  \<open>getRandom(min, max)\<close> is \<open>Math.random() * (max - min) + min\<close>. The draws of
  \<open>Math.random()\<close> are inputs of the model: \<open>rnd i\<close> is the i-th draw that the
  modelled function makes itself, each in the interval from 0 (included) to 1 (excluded).
\<close>

definition getRandom :: "real \<Rightarrow> real \<Rightarrow> real \<Rightarrow> real" where
  "getRandom u lo hi = u * (hi - lo) + lo"




subsection \<open>Responses of the liquidation endpoints\<close>

text \<open>
  The latest data point of a chart response is \<open>null\<close> or \<open>undefined\<close> (reading a
  field of it throws a TypeError), or a value whose fields \<open>longLiquidation\<close> and
  \<open>shortLiquidation\<close> are read: \<open>None\<close> for a field that is absent or falsy, which
  \<open>parseFloat(field || 0)\<close> turns into 0. The parsed fields are finite here;
  \<open>liqRatioOf\<close> covers a field that parses to NaN or an infinity.
\<close>

datatype liq_item = NullItem | LiqItem "real option" "real option"

fun numOrZero :: "real option \<Rightarrow> real" where
  "numOrZero None = 0"
| "numOrZero (Some x) = x"

text \<open>
  A settled call: \<open>None\<close> when the promise was rejected or its body has no
  \<open>data.data\<close> of the kind that the branch asks for (an array for the two chart
  endpoints, an object for the history endpoint).
\<close>

record ApiResponses =
  liquidation_chart :: "liq_item list option"
  liquidation_history :: "(real option \<times> real option) option"
  futures_liquidation_chart :: "liq_item list option"

text \<open>"Process liquidation chart data": the latest item overwrites both figures.\<close>

fun processChart :: "liq_item list option \<Rightarrow> real \<times> real \<Rightarrow> error + real \<times> real" where
  "processChart None cur = Inr cur"
| "processChart (Some []) cur = Inr cur"
| "processChart (Some (x # xs)) cur =
     (case last (x # xs) of
        NullItem \<Rightarrow> Inl TypeError
      | LiqItem l s \<Rightarrow> Inr (numOrZero l, numOrZero s))"

text \<open>"Process liquidation history data": the maximum with the figures so far.\<close>

fun processHistory :: "(real option \<times> real option) option \<Rightarrow> real \<times> real \<Rightarrow> real \<times> real" where
  "processHistory None cur = cur"
| "processHistory (Some (l, s)) (longLiq1h, shortLiq1h) =
     (max longLiq1h (numOrZero l), max shortLiq1h (numOrZero s))"

text \<open>"Process futures liquidation data": the maximum with the latest item.\<close>

fun processFutures :: "liq_item list option \<Rightarrow> real \<times> real \<Rightarrow> error + real \<times> real" where
  "processFutures None cur = Inr cur"
| "processFutures (Some []) cur = Inr cur"
| "processFutures (Some (x # xs)) (longLiq1h, shortLiq1h) =
     (case last (x # xs) of
        NullItem \<Rightarrow> Inl TypeError
      | LiqItem l s \<Rightarrow> Inr (max longLiq1h (numOrZero l), max shortLiq1h (numOrZero s)))"

subsection \<open>fetchCoinGlassWebData: the fallback tiers\<close>

text \<open>
  The three approaches are taken as their results: fetchFromCoinGlassAPI and
  fetchFromAlternativeAPI return figures or \<open>null\<close>, generateRealisticLiquidationData
  always returns figures (it is called once for the list of approaches and once more for
  the final fallback). The loop returns the first result with a positive figure.
\<close>

record WebSources =
  fromCoinGlassAPI :: "(real \<times> real) option"
  fromAlternativeAPI :: "(real \<times> real) option"
  realisticData :: "real \<times> real"
  realisticDataFinal :: "real \<times> real"

fun firstUsable :: "(real \<times> real) option list \<Rightarrow> (real \<times> real) option" where
  "firstUsable [] = None"
| "firstUsable (None # rest) = firstUsable rest"
| "firstUsable (Some (l, s) # rest) = (if l > 0 \<or> s > 0 then Some (l, s) else firstUsable rest)"

definition fetchCoinGlassWebData :: "WebSources \<Rightarrow> real \<times> real" where
  "fetchCoinGlassWebData w =
     (case firstUsable [fromCoinGlassAPI w, fromAlternativeAPI w, Some (realisticData w)] of
        Some r \<Rightarrow> r
      | None \<Rightarrow> realisticDataFinal w)"

subsection \<open>generateEnhancedMockCoinglassData\<close>

text \<open>\<open>basePrice\<close> is what \<open>getRealisticPrice(symbol)\<close> returned; \<open>Math.log\<close> is \<open>ln\<close>.\<close>

definition generateEnhancedMockCoinglassData ::
  "string \<Rightarrow> real \<Rightarrow> (nat \<Rightarrow> real) \<Rightarrow> CoinglassData" where
  "generateEnhancedMockCoinglassData symbol basePrice rnd =
     (let marketVolatility = getRandom (rnd 0) 0.5 2.0;
          baseLiquidation = ln (basePrice + 1) * 50000 * marketVolatility;
          longLiq1h = baseLiquidation * getRandom (rnd 1) 0.3 1.8;
          shortLiq1h = baseLiquidation * getRandom (rnd 2) 0.3 1.8;
          longLiq4h = longLiq1h * getRandom (rnd 3) 3.2 4.8;
          shortLiq4h = shortLiq1h * getRandom (rnd 4) 3.2 4.8;
          longLiq24h = longLiq1h * getRandom (rnd 5) 18 28;
          shortLiq24h = shortLiq1h * getRandom (rnd 6) 18 28;
          ratio = liqRatio longLiq1h shortLiq1h;
          totalLiq = longLiq1h + shortLiq1h;
          spike =
            (if totalLiq > baseLiquidation * 2 then
               (if js_gt ratio 2.5 then SPIKE_LONG
                else if js_lt ratio 0.4 then SPIKE_SHORT
                else SPIKE_NONE)
             else SPIKE_NONE)
      in \<lparr> cg_coin = symbol,
           totalLiquidations1h = longLiq1h + shortLiq1h,
           longLiquidations1h = longLiq1h,
           shortLiquidations1h = shortLiq1h,
           totalLiquidations4h = longLiq4h + shortLiq4h,
           longLiquidations4h = longLiq4h,
           shortLiquidations4h = shortLiq4h,
           totalLiquidations24h = longLiq24h + shortLiq24h,
           longLiquidations24h = longLiq24h,
           shortLiquidations24h = shortLiq24h,
           liquidationSpike = spike \<rparr>)"

subsection \<open>getRealCoinglassData\<close>

text \<open>"Enhanced liquidation spike detection" of getRealCoinglassData.\<close>

definition detectSpike :: "real \<Rightarrow> real \<Rightarrow> LiquidationSpike" where
  "detectSpike longLiq1h shortLiq1h =
     (let totalLiq1h = longLiq1h + shortLiq1h;
          ratio = liqRatio longLiq1h shortLiq1h
      in if totalLiq1h > 500000 then
           (if longLiq1h > 1000000 \<and> js_gt ratio 2.5 then SPIKE_LONG
            else if shortLiq1h > 1000000 \<and> js_lt ratio 0.4 then SPIKE_SHORT
            else SPIKE_NONE)
         else SPIKE_NONE)"

text \<open>The part after the 1h figures are established: extrapolation, spike, result.\<close>

definition snapshotFrom :: "string \<Rightarrow> real \<times> real \<Rightarrow> (nat \<Rightarrow> real) \<Rightarrow> CoinglassData" where
  "snapshotFrom symbol base rnd =
     (let longLiq1h = fst base;
          shortLiq1h = snd base;
          longLiq4h = longLiq1h * getRandom (rnd 0) 3.8 4.2;
          shortLiq4h = shortLiq1h * getRandom (rnd 1) 3.8 4.2;
          longLiq24h = longLiq1h * getRandom (rnd 2) 22 26;
          shortLiq24h = shortLiq1h * getRandom (rnd 3) 22 26;
          spike = detectSpike longLiq1h shortLiq1h
      in \<lparr> cg_coin = symbol,
           totalLiquidations1h = longLiq1h + shortLiq1h,
           longLiquidations1h = longLiq1h,
           shortLiquidations1h = shortLiq1h,
           totalLiquidations4h = longLiq4h + shortLiq4h,
           longLiquidations4h = longLiq4h,
           shortLiquidations4h = shortLiq4h,
           totalLiquidations24h = longLiq24h + shortLiq24h,
           longLiquidations24h = longLiq24h,
           shortLiquidations24h = shortLiq24h,
           liquidationSpike = spike \<rparr>)"

text \<open>The \<open>try\<close> block: \<open>Inl\<close> is an exception thrown while a response is processed.\<close>

definition getRealCoinglassData_try ::
  "string \<Rightarrow> ApiResponses \<Rightarrow> WebSources \<Rightarrow> (nat \<Rightarrow> real) \<Rightarrow> error + CoinglassData" where
  "getRealCoinglassData_try symbol api web rnd =
     (case processChart (liquidation_chart api) (0, 0) of
        Inl e \<Rightarrow> Inl e
      | Inr afterChart \<Rightarrow>
          (case processFutures (futures_liquidation_chart api)
                  (processHistory (liquidation_history api) afterChart) of
             Inl e \<Rightarrow> Inl e
           | Inr (longLiq1h, shortLiq1h) \<Rightarrow>
               Inr (snapshotFrom symbol
                      (if longLiq1h = 0 \<and> shortLiq1h = 0 then fetchCoinGlassWebData web
                       else (longLiq1h, shortLiq1h))
                      rnd)))"

text \<open>
  The whole function: a thrown exception is caught and answered by the enhanced mock
  generator (with its own price and draws).
\<close>

definition getRealCoinglassData ::
  "string \<Rightarrow> ApiResponses \<Rightarrow> WebSources \<Rightarrow> (nat \<Rightarrow> real) \<Rightarrow> real \<Rightarrow> (nat \<Rightarrow> real) \<Rightarrow> CoinglassData" where
  "getRealCoinglassData symbol api web rnd basePrice mockRnd =
     (case getRealCoinglassData_try symbol api web rnd of
        Inr snapshot \<Rightarrow> snapshot
      | Inl e \<Rightarrow> generateEnhancedMockCoinglassData symbol basePrice mockRnd)"

text \<open>
  \<open>scaledBy lo hi base x\<close>: \<open>x\<close> is \<open>base\<close> times a factor between \<open>lo\<close> and \<open>hi\<close>.
\<close>

definition scaledBy :: "real \<Rightarrow> real \<Rightarrow> real \<Rightarrow> real \<Rightarrow> bool" where
  "scaledBy lo hi base x = (if base = 0 then x = 0 else lo \<le> x / base \<and> x / base \<le> hi)"

text \<open>Concrete responses used to evaluate the fetcher.\<close>

definition noResponses :: ApiResponses where
  "noResponses =
     \<lparr> liquidation_chart = None, liquidation_history = None, futures_liquidation_chart = None \<rparr>"

definition chartOnly :: "real \<Rightarrow> real \<Rightarrow> ApiResponses" where
  "chartOnly l s = noResponses \<lparr> liquidation_chart := Some [LiqItem (Some l) (Some s)] \<rparr>"

definition nullChart :: ApiResponses where
  "nullChart = noResponses \<lparr> liquidation_chart := Some [NullItem] \<rparr>"

definition someWeb :: WebSources where
  "someWeb =
     \<lparr> fromCoinGlassAPI = None, fromAlternativeAPI = Some (70000, 30000),
       realisticData = (60000, 40000), realisticDataFinal = (50000, 50000) \<rparr>"

definition halves :: "nat \<Rightarrow> real" where
  "halves i = 1 / 2"

definition zeros :: "nat \<Rightarrow> real" where
  "zeros i = 0"

definition spikyDraws :: "nat \<Rightarrow> real" where
  "spikyDraws i = (if i = 0 then 1 / 3 else if i = 1 then 9 / 10 else if i = 2 then 1 / 10 else 0)"


definition noShortLiquidations :: CoinglassData where
  "noShortLiquidations =
     balancedLiquidations \<lparr> totalLiquidations1h := 100000, shortLiquidations1h := 0 \<rparr>"

text \<open>The long/short ratio of a snapshot's 1h figures, as the classifiers compute it.\<close>

definition ratio1h :: "CoinglassData \<Rightarrow> real" where
  "ratio1h cg = longLiquidations1h cg / max (shortLiquidations1h cg) 1"

section \<open>Indicator engine: calculateBollingerBreakout\<close>











section \<open>Advisory validator: analyzeSignalWithAI\<close>

record Config =
  openaiApiKey :: string
  aiAnalysisEnabled :: bool

text \<open>
  initializeOpenAI: no client without an API key, nor when importing or constructing
  the client throws (\<open>moduleLoads\<close> false). True stands for a non-null client.
\<close>

definition initializeOpenAI :: "Config \<Rightarrow> bool \<Rightarrow> bool" where
  "initializeOpenAI config moduleLoads =
     (if openaiApiKey config = [] then False else moduleLoads)"

text \<open>
  What the completion call gave: it threw; or it answered without content (absent, or
  empty after \<open>trim\<close>); or it answered with the trimmed text.
\<close>

datatype Completion = Rejected | NoContent | Content string

text \<open>The \<open>try\<close> block after the prompt is built; \<open>parse\<close> is \<open>JSON.parse\<close>.\<close>

definition analyzeSignalWithAI_try ::
  "(string \<Rightarrow> jsval option) \<Rightarrow> Completion \<Rightarrow> jsval \<Rightarrow> error + jsval" where
  "analyzeSignalWithAI_try parse completion news =
     (case completion of
        Rejected \<Rightarrow> Inl ApiError
      | NoContent \<Rightarrow> Inl NoResponse
      | Content responseText \<Rightarrow>
          if responseText = [] then Inl NoResponse
          else
            (case parse responseText of
               None \<Rightarrow> Inl SyntaxError
             | Some parsed \<Rightarrow>
                 (case getProp parsed ''newsAnalysis'' of
                    Inl e \<Rightarrow> Inl e
                  | Inr target \<Rightarrow>
                      (case setProp target ''keyNews'' news of
                         Inl e \<Rightarrow> Inl e
                       | Inr updated \<Rightarrow> Inr (withProp parsed ''newsAnalysis'' updated)))))"

text \<open>The object literal of the \<open>catch\<close> block.\<close>

definition fallbackAnalysis :: "SignalOutput \<Rightarrow> jsval \<Rightarrow> jsval" where
  "fallbackAnalysis sig news =
     JObj
       [(''signalValidation'',
           JObj
             [(''isValid'', JBool (confidence sig \<ge> 70)),
              (''confidence'', JNum (real_of_int (confidence sig))),
              (''reasoning'',
                 JStr ''Technical analysis based on price action and volume indicators''),
              (''suggestedAction'', JStr (suggestedAction sig))]),
        (''newsAnalysis'',
           JObj
             [(''overallSentiment'', JStr ''NEUTRAL''),
              (''keyNews'', news),
              (''marketContext'', JStr ''Market sentiment analysis unavailable'')]),
        (''riskAssessment'',
           JObj
             [(''level'',
                 JStr (if confidence sig < 50 then ''HIGH''
                       else if confidence sig < 70 then ''MEDIUM'' else ''LOW'')),
              (''factors'', JArr [JStr ''Technical indicators'', JStr ''Market volatility''] []),
              (''warnings'',
                 (if confidence sig < 70 then JArr [JStr ''Low confidence signal''] []
                  else JArr [] []))])]"

definition analyzeSignalWithAI ::
  "Config \<Rightarrow> bool \<Rightarrow> (string \<Rightarrow> jsval option) \<Rightarrow> Completion \<Rightarrow> SignalOutput \<Rightarrow> jsval
     \<Rightarrow> jsval option" where
  "analyzeSignalWithAI config moduleLoads parse completion sig news =
     (if \<not> initializeOpenAI config moduleLoads \<or> \<not> aiAnalysisEnabled config then None
      else
        (case analyzeSignalWithAI_try parse completion news of
           Inr analysis \<Rightarrow> Some analysis
         | Inl e \<Rightarrow> Some (fallbackAnalysis sig news)))"

text \<open>
  The shape that the prompt asks the answer to have (and that the type AIAnalysis
  declares, \<open>keyNews\<close> apart): the nine fields with their kinds.
\<close>

fun isBoolean :: "jsval option \<Rightarrow> bool" where
  "isBoolean (Some (JBool b)) = True"
| "isBoolean v = False"

fun isNumber :: "jsval option \<Rightarrow> bool" where
  "isNumber (Some (JNum n)) = True"
| "isNumber v = False"

fun isString :: "jsval option \<Rightarrow> bool" where
  "isString (Some (JStr t)) = True"
| "isString v = False"

fun isArray :: "jsval option \<Rightarrow> bool" where
  "isArray (Some (JArr xs ps)) = True"
| "isArray v = False"

definition expectedShape :: "jsval \<Rightarrow> bool" where
  "expectedShape v =
     (isBoolean (getPath v [''signalValidation'', ''isValid''])
      \<and> isNumber (getPath v [''signalValidation'', ''confidence''])
      \<and> isString (getPath v [''signalValidation'', ''reasoning''])
      \<and> isString (getPath v [''signalValidation'', ''suggestedAction''])
      \<and> isString (getPath v [''newsAnalysis'', ''overallSentiment''])
      \<and> isString (getPath v [''newsAnalysis'', ''marketContext''])
      \<and> isString (getPath v [''riskAssessment'', ''level''])
      \<and> isArray (getPath v [''riskAssessment'', ''factors''])
      \<and> isArray (getPath v [''riskAssessment'', ''warnings'']))"

text \<open>Concrete inputs used to evaluate the validator.\<close>

definition liveConfig :: Config where
  "liveConfig = \<lparr> openaiApiKey = ''sk-test'', aiAnalysisEnabled = True \<rparr>"

definition someNews :: jsval where
  "someNews = JArr [JObj [(''title'', JStr ''BTC Shows Strong Technical Breakout'')]] []"

text \<open>The answer \<open>{"newsAnalysis":{}}\<close>: valid JSON that lacks most of the shape.\<close>

definition bareAnswer :: string where
  "bareAnswer = ''{'' @ [CHR 0x22] @ ''newsAnalysis'' @ [CHR 0x22] @ '':{}}''"

definition parseBare :: "string \<Rightarrow> jsval option" where
  "parseBare t = (if t = bareAnswer then Some (JObj [(''newsAnalysis'', JObj [])]) else None)"

text \<open>A signal as the scorer returns it, without analysis.\<close>

definition plainSignal :: "string \<Rightarrow> Signal \<Rightarrow> int \<Rightarrow> SignalOutput" where
  "plainSignal name sig conf =
     \<lparr> sig_coin = name, sig_currentPrice = 1, signal = sig, confidence = conf,
       trendSummary = [], suggestedAction = suggestAction sig conf, aiAnalysis = None \<rparr>"

definition weakSignal :: SignalOutput where
  "weakSignal = plainSignal ''BTCUSDT'' LONG_RISKY_TODAY 40"

text \<open>\<open>v.k\<close> is an object or an array, so that a property of it can be set.\<close>

definition holdsObject :: "jsval \<Rightarrow> string \<Rightarrow> bool" where
  "holdsObject v k =
     (case getProp v k of
        Inr (Some (JObj ps)) \<Rightarrow> True
      | Inr (Some (JArr xs ps)) \<Rightarrow> True
      | Inr (Some JNull) \<Rightarrow> False
      | Inr (Some (JBool b)) \<Rightarrow> False
      | Inr (Some (JNum n)) \<Rightarrow> False
      | Inr (Some (JStr t)) \<Rightarrow> False
      | Inr None \<Rightarrow> False
      | Inl e \<Rightarrow> False)"

definition offConfig :: Config where
  "offConfig = liveConfig \<lparr> aiAnalysisEnabled := False \<rparr>"

section \<open>Batch orchestrator: validation, ranking and final selection (GET)\<close>




















section \<open>Properties of the scorer\<close>

lemma liqRatio_finite: "liqRatio l s = Finite (l / max s 1)"
  by (auto simp: liqRatio_def liqRatioOf_def max_def)

lemma liquidationRatio_finite:
  "liquidationRatio c = Finite (longLiquidations1h c / max (shortLiquidations1h c) 1)"
  by (simp add: liquidationRatio_def liqRatio_finite)

lemma determineSignal_range:
  "0 \<le> snd (determineSignal bu be) \<and> snd (determineSignal bu be) \<le> 95"
  by (simp add: determineSignal_def)

lemma pushAll_filter: "pushAll acc ps = acc @ map snd (filter fst ps)"
  by (induction acc ps rule: pushAll.induct) auto

lemma includes_LONG:
  "str_includes (signal_text g) ''LONG'' =
     (g = REVERSAL_STARTED_LONG \<or> g = LONG_GOING \<or> g = LONG_RISKY_TODAY)"
  by (cases g) simp_all

lemma includes_SHORT:
  "str_includes (signal_text g) ''SHORT'' =
     (g = REVERSAL_STARTED_SHORT \<or> g = SHORT_GOING \<or> g = SHORT_RISKY_TODAY)"
  by (cases g) simp_all

lemma adjustConfidence_range:
  "0 \<le> adjustConfidence s g c \<and> adjustConfidence s g c \<le> 100"
  by (simp add: adjustConfidence_def Let_def)

lemma adjustConfidence_NEUTRAL:
  "0 \<le> c \<Longrightarrow> c \<le> 100 \<Longrightarrow> adjustConfidence NEUTRAL g c = c"
  by (simp add: adjustConfidence_def Let_def)

lemma generateSignal_signal:
  "signal (generateSignal b c s) = fst (determineSignal (bullishCount b c) (bearishCount b c))"
  by (simp add: generateSignal_def Let_def split: prod.splits)

lemma generateSignal_confidence:
  "confidence (generateSignal b c s) =
     adjustConfidence s (fst (determineSignal (bullishCount b c) (bearishCount b c)))
       (snd (determineSignal (bullishCount b c) (bearishCount b c)))"
  by (simp add: generateSignal_def Let_def split: prod.splits)

lemma generateSignal_confidence_NEUTRAL:
  "confidence (generateSignal b c NEUTRAL) =
     snd (determineSignal (bullishCount b c) (bearishCount b c))"
proof -
  have "snd (determineSignal (bullishCount b c) (bearishCount b c)) \<le> 100"
    using determineSignal_range [of "bullishCount b c" "bearishCount b c"] by linarith
  then show ?thesis
    using determineSignal_range [of "bullishCount b c" "bearishCount b c"]
    by (simp add: generateSignal_confidence adjustConfidence_NEUTRAL)
qed

lemma sixBullMarket_count: "bullishCount sixBullMarket balancedLiquidations = 6"
  by (simp add: bullishCount_def countTrue_def bullishSignals_def sixBullMarket_def
      neutralMarket_def balancedLiquidations_def liquidationRatio_finite)

text \<open>
  C1. The scorer picks category and base confidence (the confidence before the sentiment
  statements, which is also the final confidence of a run with NEUTRAL sentiment) by the
  first matching rule, in the order: bullCount >= 5, bullCount >= 3, bearCount >= 5,
  bearCount >= 3, bullCount = 2, bearCount = 2, otherwise no signal. The final confidence
  is the base confidence after the sentiment adjustment and the clamp. With six bullish
  criteria the category is REVERSAL STARTED - LONG and the base confidence is 90.
\<close>

theorem generateSignal_priority_order:
  "(signal (generateSignal b c s), confidence (generateSignal b c NEUTRAL)) =
     (if bullishCount b c \<ge> 5
        then (REVERSAL_STARTED_LONG, min 95 (60 + 5 * int (bullishCount b c)))
      else if bullishCount b c \<ge> 3
        then (LONG_GOING, min 85 (50 + 7 * int (bullishCount b c)))
      else if bearishCount b c \<ge> 5
        then (REVERSAL_STARTED_SHORT, min 95 (60 + 5 * int (bearishCount b c)))
      else if bearishCount b c \<ge> 3
        then (SHORT_GOING, min 85 (50 + 7 * int (bearishCount b c)))
      else if bullishCount b c = 2 then (SHORT_RISKY_TODAY, 40)
      else if bearishCount b c = 2 then (LONG_RISKY_TODAY, 40)
      else (NO_SIGNAL, 0))
   \<and> confidence (generateSignal b c s) =
       adjustConfidence s (signal (generateSignal b c s)) (confidence (generateSignal b c NEUTRAL))
   \<and> (bullishCount b c = 6 \<longrightarrow>
       signal (generateSignal b c s) = REVERSAL_STARTED_LONG
       \<and> confidence (generateSignal b c NEUTRAL) = 90)"
proof -
  let ?d = "determineSignal (bullishCount b c) (bearishCount b c)"
  have pair: "(signal (generateSignal b c s), confidence (generateSignal b c NEUTRAL)) = ?d"
    by (simp add: generateSignal_signal generateSignal_confidence_NEUTRAL)
  have adj: "confidence (generateSignal b c s) =
      adjustConfidence s (signal (generateSignal b c s)) (confidence (generateSignal b c NEUTRAL))"
    unfolding generateSignal_confidence_NEUTRAL generateSignal_signal
    by (rule generateSignal_confidence)
  have six: "bullishCount b c = 6 \<Longrightarrow> ?d = (REVERSAL_STARTED_LONG, 90)"
    by (simp add: determineSignal_def)
  show ?thesis
    apply (intro conjI)
    subgoal using pair by (simp add: determineSignal_def mult.commute)
    subgoal by (rule adj)
    subgoal using pair six by (metis prod.inject)
    done
qed

theorem generateSignal_priority_order_witness:
  "bullishCount sixBullMarket balancedLiquidations = 6
   \<and> signal (generateSignal sixBullMarket balancedLiquidations BULLISH) = REVERSAL_STARTED_LONG
   \<and> confidence (generateSignal sixBullMarket balancedLiquidations NEUTRAL) = 90
   \<and> confidence (generateSignal sixBullMarket balancedLiquidations BULLISH) = 100"
proof -
  have six: "bullishCount sixBullMarket balancedLiquidations = 6"
    by (rule sixBullMarket_count)
  from generateSignal_priority_order [of sixBullMarket balancedLiquidations BULLISH] six
  have a: "signal (generateSignal sixBullMarket balancedLiquidations BULLISH) = REVERSAL_STARTED_LONG"
    and b: "confidence (generateSignal sixBullMarket balancedLiquidations NEUTRAL) = 90"
    and c: "confidence (generateSignal sixBullMarket balancedLiquidations BULLISH) =
      adjustConfidence BULLISH (signal (generateSignal sixBullMarket balancedLiquidations BULLISH))
        (confidence (generateSignal sixBullMarket balancedLiquidations NEUTRAL))"
    by simp_all
  have "confidence (generateSignal sixBullMarket balancedLiquidations BULLISH) = 100"
    unfolding c a b by (simp add: adjustConfidence_def)
  with six a b show ?thesis by simp
qed

text \<open>
  C2. The specification puts the category of every signal in a closed enumeration of
  nine values. The enumeration of categories, the union type of
  \<open>SignalOutput["signal"]\<close>, has seven values, not nine.
\<close>

theorem signal_enumeration_counterexample:
  "set signal_enumeration = (UNIV :: Signal set) \<and> distinct signal_enumeration
   \<and> length signal_enumeration \<noteq> 9"
proof -
  have "g \<in> set signal_enumeration" for g
    by (cases g) (simp_all add: signal_enumeration_def)
  then have "set signal_enumeration = UNIV" by blast
  then show ?thesis by (simp add: signal_enumeration_def)
qed

lemma signal_enumeration_attained:
  "map (\<lambda>m. signal (generateSignal m balancedLiquidations NEUTRAL))
     [sixBullMarket,
      trendMarket TREND_SHORT BB_DOWN EMA_BEARISH 0.02,
      trendMarket TREND_LONG BB_UP EMA_NONE 0,
      trendMarket TREND_SHORT BB_DOWN EMA_NONE 0,
      trendMarket TREND_SHORT BB_NONE EMA_NONE 0,
      trendMarket TREND_LONG BB_NONE EMA_NONE 0,
      neutralMarket]
   = signal_enumeration"
  by (simp add: generateSignal_signal determineSignal_def bullishCount_def bearishCount_def
      countTrue_def bullishSignals_def bearishSignals_def sixBullMarket_def trendMarket_def
      neutralMarket_def balancedLiquidations_def liquidationRatio_finite
      signal_enumeration_def)

text \<open>
  C2, amended. Every signal of the scorer has an integer confidence between 0 and 100,
  and its category is one of the seven values of the closed enumeration of categories
  (each of which the scorer does produce, see \<open>signal_enumeration_attained\<close>).
\<close>

theorem generateSignal_confidence_and_category:
  "0 \<le> confidence (generateSignal b c s) \<and> confidence (generateSignal b c s) \<le> 100
   \<and> signal (generateSignal b c s) \<in> set signal_enumeration
   \<and> distinct signal_enumeration \<and> length signal_enumeration = 7"
proof -
  have "signal (generateSignal b c s) \<in> set signal_enumeration"
    by (cases "signal (generateSignal b c s)") (simp_all add: signal_enumeration_def)
  then show ?thesis
    using adjustConfidence_range by (simp add: generateSignal_confidence signal_enumeration_def)
qed

theorem generateSignal_confidence_and_category_witness:
  "confidence (generateSignal sixBullMarket balancedLiquidations BULLISH) \<in> {0..100}
   \<and> signal (generateSignal sixBullMarket balancedLiquidations BULLISH) \<in> set signal_enumeration"
  using generateSignal_confidence_and_category [of sixBullMarket balancedLiquidations BULLISH]
  by simp

lemma zip_bullishFacts:
  "zip (map (\<lambda>i. bullishSignals b c ! i) summarisedCriteria) bullishFacts = bullishPushes b c"
  by (simp add: summarisedCriteria_def bullishSignals_def bullishFacts_def bullishPushes_def)

lemma zip_bearishFacts:
  "zip (map (\<lambda>i. bearishSignals b c ! i) summarisedCriteria) bearishFacts = bearishPushes b c"
  by (simp add: summarisedCriteria_def bearishSignals_def bearishFacts_def bearishPushes_def)

lemma generateSignal_trendSummary:
  "trendSummary (generateSignal b c s) = buildTrendSummary b c"
  by (simp add: generateSignal_def Let_def split: prod.splits)

text \<open>
  C9. The specification asks for one fact per true entry of the two 8-entry vectors. The scorer
  pushes a fact for six of the eight criteria of each side only: there is none for the
  long/short ratio (entry 5) nor for the liquidation ratio (entry 7). With only the
  long/short ratio below 0.8, one bullish criterion is true and the summary is empty.
\<close>

theorem trendSummary_counterexample:
  "length (bullishSignals ratioOnlyMarket balancedLiquidations) = 8
   \<and> length (bearishSignals ratioOnlyMarket balancedLiquidations) = 8
   \<and> bullishCount ratioOnlyMarket balancedLiquidations = 1
   \<and> bearishCount ratioOnlyMarket balancedLiquidations = 0
   \<and> trendSummary (generateSignal ratioOnlyMarket balancedLiquidations NEUTRAL) = []"
  unfolding generateSignal_trendSummary
  by (simp add: buildTrendSummary_def bullishPushes_def bearishPushes_def
      bullishCount_def bearishCount_def countTrue_def bullishSignals_def bearishSignals_def
      ratioOnlyMarket_def neutralMarket_def balancedLiquidations_def liquidationRatio_finite)

text \<open>
  C9, amended. The summary is, in this order: one fact for each true entry among the
  entries 0, 1, 2, 3, 6, 4 (both trends, breakout, crossover, liquidation spike, funding
  rate) of the bullish vector, then one fact for each true entry among the same entries
  of the bearish vector. Both vectors have eight entries.
\<close>

theorem trendSummary_facts:
  "trendSummary (generateSignal b c s) =
     factsOf (bullishSignals b c) bullishFacts @ factsOf (bearishSignals b c) bearishFacts
   \<and> length (bullishSignals b c) = 8 \<and> length (bearishSignals b c) = 8"
proof -
  have "trendSummary (generateSignal b c s) =
     factsOf (bullishSignals b c) bullishFacts @ factsOf (bearishSignals b c) bearishFacts"
    unfolding generateSignal_trendSummary buildTrendSummary_def pushAll_filter factsOf_def
      zip_bullishFacts zip_bearishFacts
    by simp
  then show ?thesis by (simp add: bullishSignals_def bearishSignals_def)
qed

theorem trendSummary_facts_witness:
  "trendSummary (generateSignal sixBullMarket balancedLiquidations NEUTRAL) =
     [''5min uptrend active'', ''15min uptrend active'', ''Bollinger upper band breakout'',
      ''EMA bullish crossover'', ''Negative funding rate (shorts paying)'']"
proof -
  have "factsOf (bullishSignals sixBullMarket balancedLiquidations) bullishFacts =
     [''5min uptrend active'', ''15min uptrend active'', ''Bollinger upper band breakout'',
      ''EMA bullish crossover'', ''Negative funding rate (shorts paying)'']"
    by (simp add: factsOf_def summarisedCriteria_def bullishSignals_def bullishFacts_def
        sixBullMarket_def neutralMarket_def balancedLiquidations_def liquidationRatio_finite)
  moreover have "factsOf (bearishSignals sixBullMarket balancedLiquidations) bearishFacts = []"
    by (simp add: factsOf_def summarisedCriteria_def bearishSignals_def bearishFacts_def
        sixBullMarket_def neutralMarket_def balancedLiquidations_def liquidationRatio_finite)
  ultimately show ?thesis
    using trendSummary_facts [of sixBullMarket balancedLiquidations NEUTRAL] by simp
qed

lemma js_max_one_nonzero: "js_max s (Finite 1) \<noteq> Finite 0"
  by (cases s) (simp_all add: max_def)

lemma liqRatioOf_isFinite: "isFinite (liqRatioOf l s) \<longleftrightarrow> isFinite l \<and> s \<noteq> NaN"
  by (cases l; cases s) (simp_all add: liqRatioOf_def max_def)

text \<open>
  C10. The specification calls the ratio a well-defined finite number for every input.
  The long and short volumes that getRealCoinglassData divides are results of
  \<open>parseFloat\<close> on a provider's fields, which can be infinite or NaN: with an
  infinite long volume and a short volume of 400,000 the ratio is infinite, and with a
  short volume that is NaN the ratio is NaN.
\<close>

theorem liquidation_ratio_counterexample:
  "liqRatioOf PosInfinity (Finite 400000) = PosInfinity
   \<and> \<not> isFinite (liqRatioOf PosInfinity (Finite 400000))
   \<and> liqRatioOf (Finite 2000000) NaN = NaN
   \<and> \<not> isFinite (liqRatioOf (Finite 2000000) NaN)"
  by (simp add: liqRatioOf_def)

text \<open>
  C10, amended. The liquidation ratio of the scorer and of both spike classifiers is
  \<open>long / max(short, 1)\<close>. For every pair of numbers the denominator is not zero, so
  the ratio criteria never divide by zero. The ratio is a finite number exactly when the
  long volume is finite and the short volume is not NaN: in particular for all finite
  volumes, where the denominator is at least 1, also when the short volume is zero; the
  criteria of the scorer then compare that finite number with their thresholds.
\<close>

theorem liquidation_ratio_well_defined:
  "js_max anyShort (Finite 1) \<noteq> Finite 0
   \<and> (isFinite (liqRatioOf anyLong anyShort) \<longleftrightarrow> isFinite anyLong \<and> anyShort \<noteq> NaN)
   \<and> liqRatioOf (Finite l) (Finite s) = Finite (l / max s 1)
   \<and> liqRatio l s = Finite (l / max s 1) \<and> 1 \<le> max s 1 \<and> isFinite (liqRatio l s)
   \<and> liqRatio l 0 = Finite l
   \<and> liquidationRatio c = Finite (longLiquidations1h c / max (shortLiquidations1h c) 1)
   \<and> isFinite (liquidationRatio c)
   \<and> bullishSignals b c ! 7 = (longLiquidations1h c / max (shortLiquidations1h c) 1 < 0.5)
   \<and> bearishSignals b c ! 7 = (longLiquidations1h c / max (shortLiquidations1h c) 1 > 2)"
proof -
  have "liqRatioOf (Finite l) (Finite s) = Finite (l / max s 1)"
    using liqRatio_finite [of l s] by (simp add: liqRatio_def)
  then show ?thesis
    using js_max_one_nonzero [of anyShort] liqRatioOf_isFinite [of anyLong anyShort]
    by (simp add: liqRatio_finite liquidationRatio_finite bullishSignals_def
        bearishSignals_def)
qed

theorem liquidation_ratio_well_defined_witness:
  "shortLiquidations1h noShortLiquidations = 0
   \<and> liquidationRatio noShortLiquidations = Finite 100000
   \<and> bearishSignals neutralMarket noShortLiquidations ! 7
   \<and> isFinite (liqRatioOf (Finite 100000) PosInfinity)
   \<and> \<not> isFinite (liqRatioOf NegInfinity (Finite 0))"
  using liquidation_ratio_well_defined
    [of PosInfinity "Finite 100000" 100000 0 noShortLiquidations neutralMarket]
    liquidation_ratio_well_defined [of "Finite 0" NegInfinity]
  by (simp add: noShortLiquidations_def balancedLiquidations_def)

section \<open>Properties of the liquidation snapshots\<close>

lemma try_snapshotFrom:
  assumes "getRealCoinglassData_try symbol api web rnd = Inr cg"
  shows "\<exists>base. cg = snapshotFrom symbol base rnd"
  using assms
  by (auto simp: getRealCoinglassData_try_def simp del: split_paired_Ex
      split: sum.splits if_splits)

lemma snapshotFrom_fields:
  "longLiquidations1h (snapshotFrom symbol base rnd) = fst base"
  "shortLiquidations1h (snapshotFrom symbol base rnd) = snd base"
  "totalLiquidations1h (snapshotFrom symbol base rnd) = fst base + snd base"
  "longLiquidations4h (snapshotFrom symbol base rnd) = fst base * getRandom (rnd 0) 3.8 4.2"
  "shortLiquidations4h (snapshotFrom symbol base rnd) = snd base * getRandom (rnd 1) 3.8 4.2"
  "longLiquidations24h (snapshotFrom symbol base rnd) = fst base * getRandom (rnd 2) 22 26"
  "shortLiquidations24h (snapshotFrom symbol base rnd) = snd base * getRandom (rnd 3) 22 26"
  "totalLiquidations4h (snapshotFrom symbol base rnd) =
     fst base * getRandom (rnd 0) 3.8 4.2 + snd base * getRandom (rnd 1) 3.8 4.2"
  "totalLiquidations24h (snapshotFrom symbol base rnd) =
     fst base * getRandom (rnd 2) 22 26 + snd base * getRandom (rnd 3) 22 26"
  "liquidationSpike (snapshotFrom symbol base rnd) = detectSpike (fst base) (snd base)"
  by (simp_all add: snapshotFrom_def Let_def)

lemma mock_fields:
  fixes symbol basePrice rnd
  defines "B \<equiv> ln (basePrice + 1) * 50000 * getRandom (rnd 0) 0.5 2.0"
  defines "cg \<equiv> generateEnhancedMockCoinglassData symbol basePrice rnd"
  shows "longLiquidations1h cg = B * getRandom (rnd 1) 0.3 1.8"
    "shortLiquidations1h cg = B * getRandom (rnd 2) 0.3 1.8"
    "totalLiquidations1h cg = longLiquidations1h cg + shortLiquidations1h cg"
    "longLiquidations4h cg = longLiquidations1h cg * getRandom (rnd 3) 3.2 4.8"
    "shortLiquidations4h cg = shortLiquidations1h cg * getRandom (rnd 4) 3.2 4.8"
    "longLiquidations24h cg = longLiquidations1h cg * getRandom (rnd 5) 18 28"
    "shortLiquidations24h cg = shortLiquidations1h cg * getRandom (rnd 6) 18 28"
    "totalLiquidations4h cg = longLiquidations4h cg + shortLiquidations4h cg"
    "totalLiquidations24h cg = longLiquidations24h cg + shortLiquidations24h cg"
    "liquidationSpike cg =
       (if longLiquidations1h cg + shortLiquidations1h cg > B * 2 then
          (if longLiquidations1h cg / max (shortLiquidations1h cg) 1 > 2.5 then SPIKE_LONG
           else if longLiquidations1h cg / max (shortLiquidations1h cg) 1 < 0.4 then SPIKE_SHORT
           else SPIKE_NONE)
        else SPIKE_NONE)"
  by (simp_all add: B_def cg_def generateEnhancedMockCoinglassData_def Let_def liqRatio_finite)

lemma detectSpike_LONG:
  "detectSpike l s = SPIKE_LONG \<longleftrightarrow> l + s > 500000 \<and> l > 1000000 \<and> l / max s 1 > 2.5"
  by (simp add: detectSpike_def Let_def liqRatio_finite)

lemma detectSpike_SHORT:
  "detectSpike l s = SPIKE_SHORT \<longleftrightarrow> l + s > 500000 \<and> s > 1000000 \<and> l / max s 1 < 0.4"
  by (auto simp add: detectSpike_def Let_def liqRatio_finite)



lemma scaledBy_iff:
  "lo \<le> hi \<Longrightarrow> scaledBy lo hi base x \<longleftrightarrow> (\<exists>f. lo \<le> f \<and> f \<le> hi \<and> x = base * f)"
  by (auto simp: scaledBy_def)



lemma ln2_ge_half: "1 / 2 \<le> ln (2::real)"
proof -
  have "ln (1 / 2 :: real) \<le> 1 / 2 - 1" by (rule ln_le_minus_one) simp
  moreover have "ln (1 / 2 :: real) = - ln 2" by (simp add: ln_div)
  ultimately show ?thesis by simp
qed

lemma try_nullChart: "getRealCoinglassData_try symbol nullChart web rnd = Inl TypeError"
  by (simp add: getRealCoinglassData_try_def nullChart_def noResponses_def)

lemma try_chartOnly:
  "l \<noteq> 0 \<Longrightarrow> getRealCoinglassData_try symbol (chartOnly l s) web rnd =
     Inr (snapshotFrom symbol (l, s) rnd)"
  by (simp add: getRealCoinglassData_try_def chartOnly_def noResponses_def)

lemma getRealCoinglassData_Inr:
  "getRealCoinglassData_try symbol api web rnd = Inr cg \<Longrightarrow>
   getRealCoinglassData symbol api web rnd basePrice mockRnd = cg"
  by (simp add: getRealCoinglassData_def)

lemma getRealCoinglassData_Inl:
  "getRealCoinglassData_try symbol api web rnd = Inl e \<Longrightarrow>
   getRealCoinglassData symbol api web rnd basePrice mockRnd =
     generateEnhancedMockCoinglassData symbol basePrice mockRnd"
  by (simp add: getRealCoinglassData_def)

lemma spiky_fields:
  "longLiquidations1h (generateEnhancedMockCoinglassData symbol 1 spikyDraws) = ln 2 * 82500"
  "shortLiquidations1h (generateEnhancedMockCoinglassData symbol 1 spikyDraws) = ln 2 * 22500"
  "longLiquidations4h (generateEnhancedMockCoinglassData symbol 1 spikyDraws) = ln 2 * 82500 * 3.2"
  "longLiquidations24h (generateEnhancedMockCoinglassData symbol 1 spikyDraws) = ln 2 * 82500 * 18"
  by (simp_all add: mock_fields spikyDraws_def getRandom_def)

lemma spiky_spike:
  "liquidationSpike (generateEnhancedMockCoinglassData symbol 1 spikyDraws) = SPIKE_LONG"
proof -
  have p: "ln (2::real) > 0" by simp
  have "ln 2 * 22500 \<ge> (1::real)" using ln2_ge_half by simp
  then have m: "max (ln 2 * 22500) (1::real) = ln 2 * 22500" by simp
  have r: "ln 2 * 82500 / (ln 2 * 22500) = (82500 / 22500 :: real)" using p by simp
  show ?thesis
    unfolding mock_fields(10) spiky_fields m r using p
    by (simp add: spikyDraws_def getRandom_def)
qed

text \<open>
  C4. The specification gives one rule for every snapshot that the fetcher returns. The snapshot
  that getRealCoinglassData returns when processing a response throws comes from
  generateEnhancedMockCoinglassData, which has no absolute thresholds: with a chart
  response whose latest item is null, base price 1 and draws 1/3, 0.9, 0.1, the long 1h
  volume is ln 2 * 82500 (below 82500, far from 1,000,000) and the label is LONG.
\<close>

theorem spike_label_counterexample:
  "getRealCoinglassData_try ''XUSDT'' nullChart someWeb halves = Inl TypeError
   \<and> liquidationSpike (getRealCoinglassData ''XUSDT'' nullChart someWeb halves 1 spikyDraws)
       = SPIKE_LONG
   \<and> longLiquidations1h (getRealCoinglassData ''XUSDT'' nullChart someWeb halves 1 spikyDraws)
       < 82500"
proof -
  have t: "getRealCoinglassData_try ''XUSDT'' nullChart someWeb halves = Inl TypeError"
    by (rule try_nullChart)
  have "ln (2::real) < 1" by (rule ln_2_less_1)
  then have "ln 2 * 82500 < (82500::real)" by simp
  then show ?thesis
    unfolding getRealCoinglassData_Inl [OF t] spiky_spike spiky_fields
    using t by simp
qed

text \<open>
  C4, amended. For every snapshot that getRealCoinglassData computes in its own body
  (whichever tier gave the 1h figures: the endpoints, or the fallback chain of
  fetchCoinGlassWebData), the label is LONG exactly when total 1h > 500,000 and long 1h >
  1,000,000 and ratio > 2.5, SHORT exactly when total 1h > 500,000 and short 1h >
  1,000,000 and ratio < 0.4, NONE otherwise; long 1h = 2,000,000 with short 1h = 400,000
  gives LONG. When processing throws, the returned snapshot is the enhanced mock
  generator's, labelled by the ratio alone (> 2.5 LONG, < 0.4 SHORT) once the total
  exceeds twice its base liquidation \<open>ln(basePrice + 1) * 50000 * volatility\<close>.
\<close>

theorem getRealCoinglassData_spike_label:
  "(getRealCoinglassData_try symbol api web rnd = Inr cg \<longrightarrow>
      getRealCoinglassData symbol api web rnd basePrice mockRnd = cg
      \<and> (liquidationSpike cg = SPIKE_LONG \<longleftrightarrow>
           totalLiquidations1h cg > 500000 \<and> longLiquidations1h cg > 1000000
           \<and> ratio1h cg > 2.5)
      \<and> (liquidationSpike cg = SPIKE_SHORT \<longleftrightarrow>
           totalLiquidations1h cg > 500000 \<and> shortLiquidations1h cg > 1000000
           \<and> ratio1h cg < 0.4)
      \<and> (liquidationSpike cg = SPIKE_NONE \<longleftrightarrow>
           \<not> (totalLiquidations1h cg > 500000 \<and> longLiquidations1h cg > 1000000
              \<and> ratio1h cg > 2.5)
           \<and> \<not> (totalLiquidations1h cg > 500000 \<and> shortLiquidations1h cg > 1000000
              \<and> ratio1h cg < 0.4))
      \<and> (longLiquidations1h cg = 2000000 \<and> shortLiquidations1h cg = 400000 \<longrightarrow>
           liquidationSpike cg = SPIKE_LONG))
   \<and> (getRealCoinglassData_try symbol api web rnd = Inl e \<longrightarrow>
      (liquidationSpike (getRealCoinglassData symbol api web rnd basePrice mockRnd) =
        (if totalLiquidations1h (getRealCoinglassData symbol api web rnd basePrice mockRnd)
              > ln (basePrice + 1) * 50000 * getRandom (mockRnd 0) 0.5 2.0 * 2
         then (if ratio1h (getRealCoinglassData symbol api web rnd basePrice mockRnd) > 2.5
               then SPIKE_LONG
               else if ratio1h (getRealCoinglassData symbol api web rnd basePrice mockRnd) < 0.4
               then SPIKE_SHORT
               else SPIKE_NONE)
         else SPIKE_NONE)))"
proof (intro conjI impI)
  assume t: "getRealCoinglassData_try symbol api web rnd = Inr cg"
  then obtain base where cg: "cg = snapshotFrom symbol base rnd"
    using try_snapshotFrom by blast
  show "getRealCoinglassData symbol api web rnd basePrice mockRnd = cg"
    using t by (rule getRealCoinglassData_Inr)
  show long: "liquidationSpike cg = SPIKE_LONG \<longleftrightarrow>
      totalLiquidations1h cg > 500000 \<and> longLiquidations1h cg > 1000000 \<and> ratio1h cg > 2.5"
    by (simp add: cg ratio1h_def snapshotFrom_fields detectSpike_LONG)
  show short: "liquidationSpike cg = SPIKE_SHORT \<longleftrightarrow>
      totalLiquidations1h cg > 500000 \<and> shortLiquidations1h cg > 1000000 \<and> ratio1h cg < 0.4"
    by (simp add: cg ratio1h_def snapshotFrom_fields detectSpike_SHORT)
  show "liquidationSpike cg = SPIKE_NONE \<longleftrightarrow>
      \<not> (totalLiquidations1h cg > 500000 \<and> longLiquidations1h cg > 1000000
         \<and> ratio1h cg > 2.5)
      \<and> \<not> (totalLiquidations1h cg > 500000 \<and> shortLiquidations1h cg > 1000000
         \<and> ratio1h cg < 0.4)"
    unfolding long [symmetric] short [symmetric]
    by (cases "liquidationSpike cg") simp_all
  show "liquidationSpike cg = SPIKE_LONG"
    if "longLiquidations1h cg = 2000000 \<and> shortLiquidations1h cg = 400000"
    using that unfolding long by (simp add: cg snapshotFrom_fields ratio1h_def)
next
  assume t: "getRealCoinglassData_try symbol api web rnd = Inl e"
  show "liquidationSpike (getRealCoinglassData symbol api web rnd basePrice mockRnd) =
        (if totalLiquidations1h (getRealCoinglassData symbol api web rnd basePrice mockRnd)
              > ln (basePrice + 1) * 50000 * getRandom (mockRnd 0) 0.5 2.0 * 2
         then (if ratio1h (getRealCoinglassData symbol api web rnd basePrice mockRnd) > 2.5
               then SPIKE_LONG
               else if ratio1h (getRealCoinglassData symbol api web rnd basePrice mockRnd) < 0.4
               then SPIKE_SHORT
               else SPIKE_NONE)
         else SPIKE_NONE)"
    unfolding getRealCoinglassData_Inl [OF t] ratio1h_def mock_fields(10) mock_fields(3)
    by (rule refl)
qed

theorem getRealCoinglassData_spike_label_witness:
  "getRealCoinglassData_try ''BTCUSDT'' (chartOnly 2000000 400000) someWeb halves =
     Inr (snapshotFrom ''BTCUSDT'' (2000000, 400000) halves)
   \<and> longLiquidations1h (snapshotFrom ''BTCUSDT'' (2000000, 400000) halves) = 2000000
   \<and> shortLiquidations1h (snapshotFrom ''BTCUSDT'' (2000000, 400000) halves) = 400000
   \<and> liquidationSpike
       (getRealCoinglassData ''BTCUSDT'' (chartOnly 2000000 400000) someWeb halves 1 zeros)
       = SPIKE_LONG"
proof -
  have t: "getRealCoinglassData_try ''BTCUSDT'' (chartOnly 2000000 400000) someWeb halves =
     Inr (snapshotFrom ''BTCUSDT'' (2000000, 400000) halves)"
    by (rule try_chartOnly) simp
  have f: "longLiquidations1h (snapshotFrom ''BTCUSDT'' (2000000, 400000) halves) = 2000000"
    "shortLiquidations1h (snapshotFrom ''BTCUSDT'' (2000000, 400000) halves) = 400000"
    by (simp_all add: snapshotFrom_fields)
  from getRealCoinglassData_spike_label [of "''BTCUSDT''" "chartOnly 2000000 400000" someWeb
      halves "snapshotFrom ''BTCUSDT'' (2000000, 400000) halves" 1 zeros] t f
  have "liquidationSpike
       (getRealCoinglassData ''BTCUSDT'' (chartOnly 2000000 400000) someWeb halves 1 zeros)
       = SPIKE_LONG"
    by simp
  with t f show ?thesis by simp
qed









section \<open>Properties of calculateBollingerBreakout\<close>





















section \<open>Properties of the advisory validator\<close>

lemma map_of_setField: "map_of (setField k v ps) k = Some v"
  by (induction ps) auto

lemma map_of_setField_other: "k' \<noteq> k \<Longrightarrow> map_of (setField k v ps) k' = map_of ps k'"
  by (induction ps) auto

lemma setProp_reads_back: "setProp target k v = Inr u \<Longrightarrow> getProp u k = Inr (Some v)"
  by (cases "(target, k, v)" rule: setProp.cases) (auto simp: map_of_setField)

lemma setProp_Inl_iff:
  "(\<exists>e. setProp target k v = Inl e) \<longleftrightarrow>
     (case target of Some (JObj ps) \<Rightarrow> False | Some (JArr xs ps) \<Rightarrow> False | _ \<Rightarrow> True)"
  by (cases "(target, k, v)" rule: setProp.cases) auto

lemma withProp_other: "k' \<noteq> k \<Longrightarrow> getPath (withProp a k u) [k'] = getPath a [k']"
  by (cases a) (simp_all add: map_of_setField_other)

lemma try_Content:
  "t \<noteq> [] \<Longrightarrow> parse t = Some a \<Longrightarrow>
   analyzeSignalWithAI_try parse (Content t) news =
     (case getProp a ''newsAnalysis'' of
        Inl e \<Rightarrow> Inl e
      | Inr target \<Rightarrow>
          (case setProp target ''keyNews'' news of
             Inl e \<Rightarrow> Inl e
           | Inr updated \<Rightarrow> Inr (withProp a ''newsAnalysis'' updated)))"
  by (simp add: analyzeSignalWithAI_try_def)

lemma try_not_object:
  assumes "parse t = Some a" "\<not> holdsObject a ''newsAnalysis''"
  shows "\<exists>e. analyzeSignalWithAI_try parse (Content t) news = Inl e"
proof (cases "t = []")
  case True
  then show ?thesis by (simp add: analyzeSignalWithAI_try_def)
next
  case False
  show ?thesis
  proof (cases "getProp a ''newsAnalysis''")
    case (Inl e)
    then show ?thesis by (simp add: try_Content [of t parse a news, OF False assms(1)])
  next
    case (Inr target)
    with assms(2) have "\<exists>e. setProp target ''keyNews'' news = Inl e"
      unfolding setProp_Inl_iff
      by (auto simp: holdsObject_def split: option.splits jsval.splits)
    with Inr show ?thesis by (auto simp: try_Content [of t parse a news, OF False assms(1)])
  qed
qed

lemma try_object:
  assumes "t \<noteq> []" "parse t = Some a" "holdsObject a ''newsAnalysis''"
  shows "\<exists>u. analyzeSignalWithAI_try parse (Content t) news = Inr (withProp a ''newsAnalysis'' u)"
proof -
  from assms(3) obtain tv where g: "getProp a ''newsAnalysis'' = Inr (Some tv)"
    and "(\<exists>ps. tv = JObj ps) \<or> (\<exists>xs ps. tv = JArr xs ps)"
    by (auto simp: holdsObject_def split: sum.splits option.splits jsval.splits)
  then obtain u where "setProp (Some tv) ''keyNews'' news = Inr u" by auto
  with g show ?thesis by (auto simp: try_Content [of t parse a news, OF assms(1,2)])
qed

lemma try_keyNews:
  assumes "analyzeSignalWithAI_try parse completion news = Inr a"
  shows "getPath a [''newsAnalysis'', ''keyNews''] = Some news"
proof -
  from assms obtain parsed target updated where
    p: "getProp parsed ''newsAnalysis'' = Inr target" and
    u: "setProp target ''keyNews'' news = Inr updated" and
    a: "a = withProp parsed ''newsAnalysis'' updated"
    by (auto simp: analyzeSignalWithAI_try_def
        split: Completion.splits if_splits option.splits sum.splits)
  from u obtain tv where "target = Some tv" by (cases target) auto
  with p have "getProp a ''newsAnalysis'' = Inr (Some updated)"
    unfolding a by (cases parsed) (auto simp: map_of_setField)
  moreover have "getProp updated ''keyNews'' = Inr (Some news)"
    using u by (rule setProp_reads_back)
  ultimately show ?thesis by simp
qed

lemma fallback_paths:
  "getPath (fallbackAnalysis sig news) [''newsAnalysis'', ''keyNews''] = Some news"
  "getPath (fallbackAnalysis sig news) [''signalValidation'', ''isValid''] =
     Some (JBool (confidence sig \<ge> 70))"
  "getPath (fallbackAnalysis sig news) [''signalValidation'', ''confidence''] =
     Some (JNum (real_of_int (confidence sig)))"
  "getPath (fallbackAnalysis sig news) [''riskAssessment'', ''level''] =
     Some (JStr (if confidence sig < 50 then ''HIGH''
                 else if confidence sig < 70 then ''MEDIUM'' else ''LOW''))"
  by (simp_all add: fallbackAnalysis_def)

lemma analyzeSignalWithAI_on:
  "openaiApiKey config \<noteq> [] \<Longrightarrow> moduleLoads \<Longrightarrow> aiAnalysisEnabled config \<Longrightarrow>
   analyzeSignalWithAI config moduleLoads parse completion sig news =
     (case analyzeSignalWithAI_try parse completion news of
        Inr analysis \<Rightarrow> Some analysis
      | Inl e \<Rightarrow> Some (fallbackAnalysis sig news))"
  by (simp add: analyzeSignalWithAI_def initializeOpenAI_def)

lemma analyzeSignalWithAI_None_iff:
  "analyzeSignalWithAI config moduleLoads parse completion sig news = None \<longleftrightarrow>
     openaiApiKey config = [] \<or> \<not> moduleLoads \<or> \<not> aiAnalysisEnabled config"
  by (auto simp: analyzeSignalWithAI_def initializeOpenAI_def split: sum.splits)

lemma analyzeSignalWithAI_keyNews:
  assumes "analyzeSignalWithAI config moduleLoads parse completion sig news = Some r"
  shows "getPath r [''newsAnalysis'', ''keyNews''] = Some news"
proof (cases "analyzeSignalWithAI_try parse completion news")
  case (Inl e)
  with assms have "r = fallbackAnalysis sig news"
    by (auto simp: analyzeSignalWithAI_def split: if_splits)
  then show ?thesis by (simp only: fallback_paths)
next
  case (Inr a)
  with assms have "r = a" by (auto simp: analyzeSignalWithAI_def split: if_splits)
  with Inr show ?thesis using try_keyNews by blast
qed

text \<open>
  C7. The specification sends every malformed response to the local fallback. The validator
  checks nothing of the parsed answer: the catch block is reached only when something
  throws. The answer \<open>{"newsAnalysis":{}}\<close> is valid JSON without validity flag,
  confidence or risk level; for a signal of confidence 40 the validator returns it with
  the news attached, not the fallback (whose validity flag would be false).
\<close>

theorem malformed_answer_counterexample:
  "parseBare bareAnswer = Some (JObj [(''newsAnalysis'', JObj [])])
   \<and> \<not> expectedShape (JObj [(''newsAnalysis'', JObj [])])
   \<and> analyzeSignalWithAI liveConfig True parseBare (Content bareAnswer) weakSignal someNews =
       Some (JObj [(''newsAnalysis'', JObj [(''keyNews'', someNews)])])
   \<and> analyzeSignalWithAI liveConfig True parseBare (Content bareAnswer) weakSignal someNews \<noteq>
       Some (fallbackAnalysis weakSignal someNews)
   \<and> getPath (JObj [(''newsAnalysis'', JObj [(''keyNews'', someNews)])])
         [''signalValidation'', ''isValid''] = None"
proof -
  have r: "analyzeSignalWithAI liveConfig True parseBare (Content bareAnswer) weakSignal someNews =
       Some (JObj [(''newsAnalysis'', JObj [(''keyNews'', someNews)])])"
    by (simp add: analyzeSignalWithAI_def initializeOpenAI_def liveConfig_def
        analyzeSignalWithAI_try_def parseBare_def bareAnswer_def)
  have "JObj [(''newsAnalysis'', JObj [(''keyNews'', someNews)])] \<noteq>
      fallbackAnalysis weakSignal someNews"
    by (simp add: fallbackAnalysis_def)
  with r show ?thesis by (simp add: parseBare_def expectedShape_def)
qed

text \<open>
  C7, amended. The validator returns null exactly when there is no client (no API key,
  or the client cannot be loaded) or the analysis is disabled. Otherwise it returns the
  local fallback when the completion call fails, when the answer has no content, when
  the answer is not valid JSON, and when the parsed answer has no object (or array)
  under \<open>newsAnalysis\<close>; the fallback has validity flag (confidence >= 70), confidence
  equal to the signal's, and risk level HIGH below 50, MEDIUM below 70, else LOW. A
  parsed answer with an object under \<open>newsAnalysis\<close> is returned without further
  checks, its other properties as parsed. Every non-null result has the input news as
  \<open>newsAnalysis.keyNews\<close>.
\<close>

theorem analyzeSignalWithAI_outcomes:
  "(analyzeSignalWithAI config moduleLoads parse completion sig news = None \<longleftrightarrow>
      openaiApiKey config = [] \<or> \<not> moduleLoads \<or> \<not> aiAnalysisEnabled config)
   \<and> (openaiApiKey config \<noteq> [] \<and> moduleLoads \<and> aiAnalysisEnabled config
       \<and> (completion = Rejected \<or> completion = NoContent
           \<or> (completion = Content t
               \<and> (t = [] \<or> parse t = None
                   \<or> (parse t = Some a \<and> \<not> holdsObject a ''newsAnalysis'')))) \<longrightarrow>
       analyzeSignalWithAI config moduleLoads parse completion sig news =
         Some (fallbackAnalysis sig news))
   \<and> getPath (fallbackAnalysis sig news) [''signalValidation'', ''isValid''] =
       Some (JBool (confidence sig \<ge> 70))
   \<and> getPath (fallbackAnalysis sig news) [''signalValidation'', ''confidence''] =
       Some (JNum (real_of_int (confidence sig)))
   \<and> getPath (fallbackAnalysis sig news) [''riskAssessment'', ''level''] =
       Some (JStr (if confidence sig < 50 then ''HIGH''
                   else if confidence sig < 70 then ''MEDIUM'' else ''LOW''))
   \<and> (openaiApiKey config \<noteq> [] \<and> moduleLoads \<and> aiAnalysisEnabled config
       \<and> completion = Content t \<and> t \<noteq> [] \<and> parse t = Some a
       \<and> holdsObject a ''newsAnalysis'' \<and> k \<noteq> ''newsAnalysis''
       \<and> analyzeSignalWithAI config moduleLoads parse completion sig news = Some r \<longrightarrow>
       getPath r [k] = getPath a [k])
   \<and> (analyzeSignalWithAI config moduleLoads parse completion sig news = Some r \<longrightarrow>
       getPath r [''newsAnalysis'', ''keyNews''] = Some news)"
proof (intro conjI impI)
  show "analyzeSignalWithAI config moduleLoads parse completion sig news = None \<longleftrightarrow>
      openaiApiKey config = [] \<or> \<not> moduleLoads \<or> \<not> aiAnalysisEnabled config"
    by (rule analyzeSignalWithAI_None_iff)
next
  assume h: "openaiApiKey config \<noteq> [] \<and> moduleLoads \<and> aiAnalysisEnabled config
       \<and> (completion = Rejected \<or> completion = NoContent
           \<or> (completion = Content t
               \<and> (t = [] \<or> parse t = None
                   \<or> (parse t = Some a \<and> \<not> holdsObject a ''newsAnalysis''))))"
  then have on: "openaiApiKey config \<noteq> []" "moduleLoads" "aiAnalysisEnabled config"
    by simp_all
  note disj = h [THEN conjunct2, THEN conjunct2, THEN conjunct2]
  from disj have "\<exists>e. analyzeSignalWithAI_try parse completion news = Inl e"
  proof (elim disjE conjE)
    assume "completion = Rejected"
    then show ?thesis by (simp add: analyzeSignalWithAI_try_def)
  next
    assume "completion = NoContent"
    then show ?thesis by (simp add: analyzeSignalWithAI_try_def)
  next
    assume "completion = Content t" "t = []"
    then show ?thesis by (simp add: analyzeSignalWithAI_try_def)
  next
    assume "completion = Content t" "parse t = None"
    then show ?thesis by (simp add: analyzeSignalWithAI_try_def)
  next
    assume "completion = Content t" "parse t = Some a" "\<not> holdsObject a ''newsAnalysis''"
    then show ?thesis using try_not_object [of parse t a news] by simp
  qed
  then show "analyzeSignalWithAI config moduleLoads parse completion sig news =
         Some (fallbackAnalysis sig news)"
    by (auto simp: analyzeSignalWithAI_on [OF on])
next
  show "getPath (fallbackAnalysis sig news) [''signalValidation'', ''isValid''] =
       Some (JBool (confidence sig \<ge> 70))"
    by (rule fallback_paths)
  show "getPath (fallbackAnalysis sig news) [''signalValidation'', ''confidence''] =
       Some (JNum (real_of_int (confidence sig)))"
    by (rule fallback_paths)
  show "getPath (fallbackAnalysis sig news) [''riskAssessment'', ''level''] =
       Some (JStr (if confidence sig < 50 then ''HIGH''
                   else if confidence sig < 70 then ''MEDIUM'' else ''LOW''))"
    by (rule fallback_paths)
next
  assume h: "openaiApiKey config \<noteq> [] \<and> moduleLoads \<and> aiAnalysisEnabled config
       \<and> completion = Content t \<and> t \<noteq> [] \<and> parse t = Some a
       \<and> holdsObject a ''newsAnalysis'' \<and> k \<noteq> ''newsAnalysis''
       \<and> analyzeSignalWithAI config moduleLoads parse completion sig news = Some r"
  then have on: "openaiApiKey config \<noteq> []" "moduleLoads" "aiAnalysisEnabled config"
    and c: "completion = Content t" and t: "t \<noteq> []" "parse t = Some a"
    and o: "holdsObject a ''newsAnalysis''" and k: "k \<noteq> ''newsAnalysis''"
    and r: "analyzeSignalWithAI config moduleLoads parse completion sig news = Some r"
    by auto
  from try_object [of t parse a news, OF t o] obtain u where
    "analyzeSignalWithAI_try parse (Content t) news = Inr (withProp a ''newsAnalysis'' u)"
    by blast
  with r have "r = withProp a ''newsAnalysis'' u"
    by (simp add: analyzeSignalWithAI_on [OF on] c)
  then show "getPath r [k] = getPath a [k]"
    using withProp_other [OF k, of a u] by simp
next
  assume "analyzeSignalWithAI config moduleLoads parse completion sig news = Some r"
  then show "getPath r [''newsAnalysis'', ''keyNews''] = Some news"
    by (rule analyzeSignalWithAI_keyNews)
qed

theorem analyzeSignalWithAI_outcomes_witness:
  "analyzeSignalWithAI offConfig True parseBare Rejected weakSignal someNews = None
   \<and> analyzeSignalWithAI liveConfig True parseBare Rejected weakSignal someNews =
       Some (fallbackAnalysis weakSignal someNews)
   \<and> getPath (fallbackAnalysis weakSignal someNews) [''signalValidation'', ''isValid''] =
       Some (JBool False)
   \<and> getPath (fallbackAnalysis weakSignal someNews) [''riskAssessment'', ''level''] =
       Some (JStr ''HIGH'')
   \<and> getPath (fallbackAnalysis weakSignal someNews) [''newsAnalysis'', ''keyNews''] =
       Some someNews"
proof -
  have c: "confidence weakSignal = 40" by (simp add: weakSignal_def plainSignal_def)
  have a: "analyzeSignalWithAI offConfig True parseBare Rejected weakSignal someNews = None"
    using analyzeSignalWithAI_outcomes [of offConfig True parseBare Rejected weakSignal someNews]
    by (simp add: offConfig_def liveConfig_def)
  have b: "analyzeSignalWithAI liveConfig True parseBare Rejected weakSignal someNews =
       Some (fallbackAnalysis weakSignal someNews)"
    using analyzeSignalWithAI_outcomes [of liveConfig True parseBare Rejected weakSignal someNews]
    by (simp add: liveConfig_def)
  have d: "getPath (fallbackAnalysis weakSignal someNews) [''newsAnalysis'', ''keyNews''] =
       Some someNews"
    using analyzeSignalWithAI_outcomes [of liveConfig True parseBare Rejected weakSignal someNews
        _ _ _ "fallbackAnalysis weakSignal someNews"] b
    by blast
  have e: "getPath (fallbackAnalysis weakSignal someNews) [''signalValidation'', ''isValid''] =
       Some (JBool False)"
    "getPath (fallbackAnalysis weakSignal someNews) [''riskAssessment'', ''level''] =
       Some (JStr ''HIGH'')"
    using analyzeSignalWithAI_outcomes [of liveConfig True parseBare Rejected weakSignal someNews]
    by (simp_all add: c)
  from a b d e show ?thesis by blast
qed

section \<open>Properties of the ranking and the final selection\<close>























end
